theory Spec2Isabelle
  imports Main "HOL-Library.Word" "HOL-Library.Sublist" "HOL-Library.Multiset"
begin

unbundle bit_operations_syntax

section \<open>Data model\<close>

text \<open>
  Go's \<open>uint8\<close> is an \<open>8 word\<close>, a \<open>uint32\<close> a \<open>32 word\<close>. Go's \<open>uint\<close> is 32 or
  64 bits wide depending on the target, so functions over \<open>uint\<close> are stated for any
  word length \<open>'a\<close>. Go's \<open>int\<close> is used here only for slice indices and counts; it is
  modelled as \<open>int\<close>, and every index is checked against the slice length as the Go
  runtime does.
\<close>

type_synonym u8 = "8 word"
type_synonym u32 = "32 word"

text \<open>A Go \<open>error\<close> value built by \<open>fmt.Errorf\<close> is its message.\<close>

type_synonym error = string

text \<open>
  A Go panic: either an explicit \<open>panic(msg)\<close> of a bulk setter (the contract
  violation of the specification), or the runtime's index-out-of-range panic, which
  carries the index and the slice length, or the runtime's panic of \<open>make\<close> on a
  negative length.
\<close>

datatype panic = ContractViolation string | IndexOutOfRange int nat | MakeSliceLenOutOfRange

datatype 'a outcome = Returned 'a | Panicked panic

subsection \<open>ledctl.go\<close>

datatype ColorOrder = GRBOrder | BRGOrder | BGROrder | GBROrder | RGBOrder | RBGOrder | GRBWOrder

definition offsets :: "ColorOrder \<Rightarrow> int list" where
  "offsets ord = (case ord of
       GRBOrder \<Rightarrow> [0, 1, 2, -1]
     | BRGOrder \<Rightarrow> [2, 1, 0, -1]
     | BGROrder \<Rightarrow> [1, 2, 0, -1]
     | GBROrder \<Rightarrow> [0, 2, 1, -1]
     | RGBOrder \<Rightarrow> [1, 0, 2, -1]
     | RBGOrder \<Rightarrow> [2, 0, 1, -1]
     | GRBWOrder \<Rightarrow> [0, 1, 2, 3])"

datatype ColorModel = RGBWModel | RGBModel

definition NumColors :: "ColorModel \<Rightarrow> int" where
  "NumColors m = (case m of RGBWModel \<Rightarrow> 4 | RGBModel \<Rightarrow> 3)"

record RGBW =
  R :: u8
  G :: u8
  B :: u8
  W :: u8

record RGB =
  R :: u8
  G :: u8
  B :: u8

subsection \<open>Operations on a state that may panic\<close>

text \<open>
  A method that mutates its receiver is a function from the state to an outcome and
  the state it leaves behind; after a panic that state is the one reached by the
  writes done before the panic.
\<close>

type_synonym ('a, 's) op = "'s \<Rightarrow> 'a outcome \<times> 's"

definition obind :: "('a, 's) op \<Rightarrow> ('a \<Rightarrow> ('b, 's) op) \<Rightarrow> ('b, 's) op" where
  "obind m f s = (case m s of (Returned a, s') \<Rightarrow> f a s' | (Panicked p, s') \<Rightarrow> (Panicked p, s'))"

definition othen :: "(unit, 's) op \<Rightarrow> ('b, 's) op \<Rightarrow> ('b, 's) op" where
  "othen m n = obind m (\<lambda>_. n)"

text \<open>A \<open>for\<close> loop over a fixed sequence of index values; a panic in the body ends it.\<close>

fun forEach :: "'x list \<Rightarrow> ('x \<Rightarrow> (unit, 's) op) \<Rightarrow> (unit, 's) op" where
  "forEach [] f s = (Returned (), s)"
| "forEach (x # xs) f s =
     (case f x s of (Returned _, s') \<Rightarrow> forEach xs f s' | (Panicked p, s') \<Rightarrow> (Panicked p, s'))"

text \<open>Reading \<open>xs[i]\<close> and writing \<open>xs[i] = v\<close> with Go's bounds check.\<close>

definition sliceGet :: "'a list \<Rightarrow> int \<Rightarrow> 'a outcome" where
  "sliceGet xs i =
     (if 0 \<le> i \<and> i < int (length xs) then Returned (xs ! nat i)
      else Panicked (IndexOutOfRange i (length xs)))"

definition sliceSet :: "int \<Rightarrow> 'a \<Rightarrow> (unit, 'a list) op" where
  "sliceSet i v xs =
     (if 0 \<le> i \<and> i < int (length xs) then (Returned (), xs[nat i := v])
      else (Panicked (IndexOutOfRange i (length xs)), xs))"

subsection \<open>rpi/rpi.go: hardware detection\<close>

record hw =
  hwType :: int
  periphBase :: nat
  vcBase :: nat
  name :: string

definition RPI_HWVER_TYPE_UNKNOWN :: int where "RPI_HWVER_TYPE_UNKNOWN = 0"
definition RPI_HWVER_TYPE_PI1 :: int where "RPI_HWVER_TYPE_PI1 = 1"
definition RPI_HWVER_TYPE_PI2 :: int where "RPI_HWVER_TYPE_PI2 = 2"
definition RPI_HWVER_TYPE_PI4 :: int where "RPI_HWVER_TYPE_PI4 = 3"

definition PERIPH_BASE_RPI :: nat where "PERIPH_BASE_RPI = 0x20000000"
definition PERIPH_BASE_RPI2 :: nat where "PERIPH_BASE_RPI2 = 0x3f000000"
definition PERIPH_BASE_RPI4 :: nat where "PERIPH_BASE_RPI4 = 0xfe000000"

definition VIDEOCORE_BASE_RPI :: nat where "VIDEOCORE_BASE_RPI = 0x40000000"
definition VIDEOCORE_BASE_RPI2 :: nat where "VIDEOCORE_BASE_RPI2 = 0xc0000000"

definition rasPiVariants :: "hw list" where
  "rasPiVariants =
    [\<lparr>hwType = RPI_HWVER_TYPE_PI1, periphBase = PERIPH_BASE_RPI, vcBase = VIDEOCORE_BASE_RPI,
      name = ''Raspberry Pi Model B''\<rparr>,
     \<lparr>hwType = RPI_HWVER_TYPE_PI1, periphBase = PERIPH_BASE_RPI, vcBase = VIDEOCORE_BASE_RPI,
      name = ''Raspberry Pi Compute Module''\<rparr>,
     \<lparr>hwType = RPI_HWVER_TYPE_PI1, periphBase = PERIPH_BASE_RPI, vcBase = VIDEOCORE_BASE_RPI,
      name = ''Raspberry Pi Zero W''\<rparr>,
     \<lparr>hwType = RPI_HWVER_TYPE_PI2, periphBase = PERIPH_BASE_RPI2, vcBase = VIDEOCORE_BASE_RPI2,
      name = ''Raspberry Pi 2 Model B''\<rparr>,
     \<lparr>hwType = RPI_HWVER_TYPE_PI2, periphBase = PERIPH_BASE_RPI2, vcBase = VIDEOCORE_BASE_RPI2,
      name = ''Raspberry Pi Compute Module 3''\<rparr>,
     \<lparr>hwType = RPI_HWVER_TYPE_PI2, periphBase = PERIPH_BASE_RPI2, vcBase = VIDEOCORE_BASE_RPI2,
      name = ''Raspberry Pi Compute Module 3 Plus''\<rparr>,
     \<lparr>hwType = RPI_HWVER_TYPE_PI2, periphBase = PERIPH_BASE_RPI2, vcBase = VIDEOCORE_BASE_RPI2,
      name = ''Raspberry Pi 3 Model B''\<rparr>,
     \<lparr>hwType = RPI_HWVER_TYPE_PI2, periphBase = PERIPH_BASE_RPI2, vcBase = VIDEOCORE_BASE_RPI2,
      name = ''Raspberry Pi 3 Model B Plus''\<rparr>,
     \<lparr>hwType = RPI_HWVER_TYPE_PI4, periphBase = PERIPH_BASE_RPI4, vcBase = VIDEOCORE_BASE_RPI2,
      name = ''Raspberry Pi 4 Model B''\<rparr>]"

text \<open>The comparison handed to \<open>sort.Slice\<close>.\<close>

definition variantLess :: "hw \<Rightarrow> hw \<Rightarrow> bool" where
  "variantLess x y =
     (if length (name x) = length (name y) then vcBase x < vcBase y
      else length (name x) > length (name y))"

text \<open>
  \<open>sort.Slice\<close> is Go's library sort: its result is a permutation of the slice in which
  no later element is less than an earlier one; it is not stable, so the order of
  elements that compare as equal is not fixed. \<open>sortResult xs ys\<close> says that \<open>ys\<close> is a
  possible result of sorting \<open>xs\<close>. \<open>sortVariants\<close> is one of them (an insertion sort),
  used to run the detection on examples.
\<close>

definition sortResult :: "hw list \<Rightarrow> hw list \<Rightarrow> bool" where
  "sortResult xs ys \<longleftrightarrow> mset ys = mset xs \<and> sorted_wrt (\<lambda>x y. \<not> variantLess y x) ys"

fun insertVariant :: "hw \<Rightarrow> hw list \<Rightarrow> hw list" where
  "insertVariant x [] = [x]"
| "insertVariant x (y # ys) = (if variantLess x y then x # y # ys else y # insertVariant x ys)"

definition sortVariants :: "hw list \<Rightarrow> hw list" where
  "sortVariants xs = foldr insertVariant xs []"

text \<open>
  \<open>detectHardware\<close>, given the catalog as the one-time sort has left it and the result
  of reading \<open>/proc/device-tree/model\<close> (\<open>Inl\<close> the error of \<open>os.ReadFile\<close>). The \<open>%q\<close>
  verb puts the model string in double quotes (its escaping of unprintable characters
  is left out).
\<close>

definition detectHardware :: "hw list \<Rightarrow> error + string \<Rightarrow> error + hw" where
  "detectHardware variants modelFile =
     (case modelFile of
        Inl err \<Rightarrow> Inl (''couldn't open model file: '' @ err)
      | Inr model \<Rightarrow>
          (case find (\<lambda>rp. prefix (name rp) model) variants of
             Some rp \<Rightarrow> Inr rp
           | None \<Rightarrow> Inl (''couldn't identify Pi model '' @ [CHR 0x22] @ model @ [CHR 0x22])))"

subsection \<open>The hardware handle\<close>

text \<open>
  Modelled from the spec: the methods of \<open>rpi.RPi\<close> other than \<open>NewRPi\<close> and
  \<open>detectHardware\<close> (\<open>mboxOpen\<close>, \<open>GetDMABuf\<close>, \<open>FreeDMABuf\<close>, \<open>InitDMA\<close>, \<open>InitGPIO\<close>,
  \<open>InitPWM\<close>, \<open>WaitForDMAEnd\<close>, \<open>StartDMA\<close>, \<open>StopPWM\<close>) and the type \<open>rpi.DMABuf\<close> are not
  among the source files. Each method is modelled as a call on the hardware that is
  appended to the handle's log of calls and whose error result is given by the
  environment \<open>hwenv\<close>. A DMA buffer is a handle (a number) and its memory, seen as
  32-bit words by \<open>Uint32Slice\<close>; a pointer to a buffer is \<open>Some\<close> handle, or \<open>None\<close> when
  nil. \<open>GetDMABuf\<close> yields a buffer of the requested size in bytes whose first contents
  are those of the environment's memory.
\<close>

datatype hwcall =
    CallMboxOpen
  | CallGetDMABuf nat
  | CallFreeDMABuf "nat option"
  | CallInitDMA int
  | CallInitGPIO
  | CallInitPWM nat "nat option" nat "int list"
  | CallWaitForDMAEnd
  | CallStartDMA "nat option" "u32 list"
  | CallStopPWM

record hwenv =
  modelFile :: "error + string"
  mboxOpenErr :: "error option"
  getDMABufErr :: "error option"
  dmaHandle :: nat
  dmaMemory :: "nat \<Rightarrow> u32"
  initDMAErr :: "error option"
  initGPIOErr :: "error option"
  initPWMErr :: "error option"
  freeDMABufErr :: "error option"
  waitForDMAEndErr :: "error option"

record RPi =
  hw :: hw
  env :: hwenv
  calls :: "hwcall list"

definition logCall :: "hwcall \<Rightarrow> RPi \<Rightarrow> RPi" where
  "logCall c rp = rp\<lparr>calls := calls rp @ [c]\<rparr>"

definition mboxOpen :: "RPi \<Rightarrow> error option \<times> RPi" where
  "mboxOpen rp = (mboxOpenErr (env rp), logCall CallMboxOpen rp)"

definition GetDMABuf :: "nat \<Rightarrow> RPi \<Rightarrow> (error + nat \<times> u32 list) \<times> RPi" where
  "GetDMABuf bytes rp =
     (case getDMABufErr (env rp) of
        Some err \<Rightarrow> Inl err
      | None \<Rightarrow> Inr (dmaHandle (env rp), map (dmaMemory (env rp)) [0..<bytes div 4]),
      logCall (CallGetDMABuf bytes) rp)"

definition FreeDMABuf :: "nat option \<Rightarrow> RPi \<Rightarrow> error option \<times> RPi" where
  "FreeDMABuf h rp = (freeDMABufErr (env rp), logCall (CallFreeDMABuf h) rp)"

definition InitDMA :: "int \<Rightarrow> RPi \<Rightarrow> error option \<times> RPi" where
  "InitDMA ch rp = (initDMAErr (env rp), logCall (CallInitDMA ch) rp)"

definition InitGPIO :: "RPi \<Rightarrow> error option \<times> RPi" where
  "InitGPIO rp = (initGPIOErr (env rp), logCall CallInitGPIO rp)"

definition InitPWM :: "nat \<Rightarrow> nat option \<Rightarrow> nat \<Rightarrow> int list \<Rightarrow> RPi \<Rightarrow> error option \<times> RPi" where
  "InitPWM freq h bytes pins rp = (initPWMErr (env rp), logCall (CallInitPWM freq h bytes pins) rp)"

definition WaitForDMAEnd :: "RPi \<Rightarrow> error option \<times> RPi" where
  "WaitForDMAEnd rp = (waitForDMAEndErr (env rp), logCall CallWaitForDMAEnd rp)"

definition StartDMA :: "nat option \<Rightarrow> u32 list \<Rightarrow> RPi \<Rightarrow> RPi" where
  "StartDMA h mem rp = logCall (CallStartDMA h mem) rp"

text \<open>
  \<open>NewRPi\<close>: the first argument is the catalog as sorted by \<open>detectHardware\<close>'s one-time
  sort; the second component of the result is the log of the calls made on the hardware.
\<close>

definition NewRPi :: "hw list \<Rightarrow> hwenv \<Rightarrow> (error + RPi) \<times> hwcall list" where
  "NewRPi variants e =
     (case detectHardware variants (modelFile e) of
        Inl err \<Rightarrow> (Inl (''couldn't detect RPi hardware: '' @ err), [])
      | Inr h \<Rightarrow>
          (case mboxOpen \<lparr>hw = h, env = e, calls = []\<rparr> of
             (Some err, rp) \<Rightarrow> (Inl (''couldn't open mailbox: '' @ err), calls rp)
           | (None, rp) \<Rightarrow> (Inr rp, calls rp)))"

text \<open>
  Modelled from the spec: the constant \<open>rpi.RPI_PWM_CHANNELS\<close> is not among the source
  files; the specification speaks of both hardware PWM channels, and \<open>Flush\<close> fills
  channels 0 and 1.
\<close>

definition RPI_PWM_CHANNELS :: nat where
  "RPI_PWM_CHANNELS = 2"

subsection \<open>The LPD8806 driver\<close>

text \<open>
  The struct \<open>LPD8806\<close>. In the source \<open>pixels\<close> is the prefix \<open>val[:n]\<close> of \<open>buffer\<close> and
  shares its memory; the model keeps \<open>pixels\<close> and the rest of \<open>buffer\<close> (the reset
  bytes) as two fields, so that \<open>buffer\<close> is \<open>pixels @ resetBytes\<close>. The device and the
  hardware handle play no part in the pixel accessors and are left out.
\<close>

record LPD8806 =
  pixels :: "u8 list"
  resetBytes :: "u8 list"
  numColors :: int
  numPixels :: int
  g :: int
  r :: int
  b :: int
  w :: int

definition LPD8806_buffer :: "LPD8806 \<Rightarrow> u8 list" where
  "LPD8806_buffer la = LPD8806.pixels la @ resetBytes la"

definition LPD8806_store :: "int \<Rightarrow> u8 \<Rightarrow> (unit, LPD8806) op" where
  "LPD8806_store i v la =
     (case sliceSet i v (LPD8806.pixels la) of (res, px) \<Rightarrow> (res, la\<lparr>LPD8806.pixels := px\<rparr>))"

definition LPD8806_load :: "int \<Rightarrow> (u8, LPD8806) op" where
  "LPD8806_load i la = (sliceGet (LPD8806.pixels la) i, la)"

definition LPD8806_RGBWAt :: "int \<Rightarrow> (RGBW, LPD8806) op" where
  "LPD8806_RGBWAt i la =
     (let ofs = i * LPD8806.numColors la in
        obind (LPD8806_load (ofs + LPD8806.r la)) (\<lambda>vr.
        obind (LPD8806_load (ofs + LPD8806.g la)) (\<lambda>vg.
        obind (LPD8806_load (ofs + LPD8806.b la)) (\<lambda>vb.
        obind (LPD8806_load (ofs + LPD8806.w la)) (\<lambda>vw.
          Pair (Returned \<lparr>RGBW.R = vr AND 0x7F, RGBW.G = vg AND 0x7F,
                          RGBW.B = vb AND 0x7F, RGBW.W = vw AND 0x7F\<rparr>))))) la)"

definition LPD8806_SetRGBWAt :: "int \<Rightarrow> RGBW \<Rightarrow> (unit, LPD8806) op" where
  "LPD8806_SetRGBWAt i rgbw la =
     (let ofs = i * LPD8806.numColors la in
        othen (LPD8806_store (ofs + LPD8806.r la) (0x80 OR RGBW.R rgbw))
       (othen (LPD8806_store (ofs + LPD8806.g la) (0x80 OR RGBW.G rgbw))
       (othen (LPD8806_store (ofs + LPD8806.b la) (0x80 OR RGBW.B rgbw))
              (LPD8806_store (ofs + LPD8806.w la) (0x80 OR RGBW.W rgbw)))) la)"

definition LPD8806_RGBAt :: "int \<Rightarrow> (RGB, LPD8806) op" where
  "LPD8806_RGBAt i la =
     (let ofs = i * LPD8806.numColors la in
        obind (LPD8806_load (ofs + LPD8806.r la)) (\<lambda>vr.
        obind (LPD8806_load (ofs + LPD8806.g la)) (\<lambda>vg.
        obind (LPD8806_load (ofs + LPD8806.b la)) (\<lambda>vb.
          Pair (Returned \<lparr>RGB.R = vr AND 0x7F, RGB.G = vg AND 0x7F, RGB.B = vb AND 0x7F\<rparr>)))) la)"

definition LPD8806_SetRGBAt :: "int \<Rightarrow> RGB \<Rightarrow> (unit, LPD8806) op" where
  "LPD8806_SetRGBAt i rgb la =
     (let ofs = i * LPD8806.numColors la in
        othen (LPD8806_store (ofs + LPD8806.r la) (0x80 OR RGB.R rgb))
       (othen (LPD8806_store (ofs + LPD8806.g la) (0x80 OR RGB.G rgb))
              (LPD8806_store (ofs + LPD8806.b la) (0x80 OR RGB.B rgb))) la)"

text \<open>
  The bulk setters. Their loop runs for \<open>i = 0, step, 2 * step, \<dots>\<close> while
  \<open>i < len(pixels)\<close> and counts its rounds in \<open>a\<close>, so that \<open>i = step * a\<close>; no write
  changes the length of the slice, so the rounds are those of \<open>loopRounds\<close>. An element
  of the argument slice is read (with its bounds check) before the write it feeds.
\<close>

definition loopRounds :: "nat \<Rightarrow> nat \<Rightarrow> nat list" where
  "loopRounds step n = [0..<(n + step - 1) div step]"

definition loadArg :: "'a list \<Rightarrow> int \<Rightarrow> ('a, 's) op" where
  "loadArg xs i s = (sliceGet xs i, s)"

definition LPD8806_SetRGBWs :: "RGBW list \<Rightarrow> (unit, LPD8806) op" where
  "LPD8806_SetRGBWs px la =
     (if LPD8806.numColors la \<noteq> 4 then
        (Panicked (ContractViolation ''SetRGBWs called on WS281x with numColors != 4''), la)
      else if int (length px) \<noteq> LPD8806.numPixels la then
        (Panicked (ContractViolation ''SetRGBWs called with wrong number of pixels''), la)
      else
        forEach (loopRounds 4 (length (LPD8806.pixels la))) (\<lambda>n s.
          (let a = int n; i = int n * 4 in
             othen (obind (loadArg px i) (\<lambda>p. LPD8806_store (a + LPD8806.r s) (0x80 OR RGBW.R p)))
            (othen (obind (loadArg px i) (\<lambda>p. LPD8806_store (a + LPD8806.g s) (0x80 OR RGBW.G p)))
            (othen (obind (loadArg px i) (\<lambda>p. LPD8806_store (a + LPD8806.b s) (0x80 OR RGBW.B p)))
                   (obind (loadArg px i) (\<lambda>p. LPD8806_store (a + LPD8806.w s) (0x80 OR RGBW.W p))))) s))
          la)"

definition LPD8806_SetRGBs :: "RGB list \<Rightarrow> (unit, LPD8806) op" where
  "LPD8806_SetRGBs px la =
     (if LPD8806.numColors la \<noteq> 3 then
        (Panicked (ContractViolation ''SetRGBs called on RGBW strip''), la)
      else if int (length px) \<noteq> LPD8806.numPixels la then
        (Panicked (ContractViolation ''SetRGBs called with wrong number of pixels''), la)
      else
        forEach (loopRounds 3 (length (LPD8806.pixels la))) (\<lambda>n s.
          (let a = int n; i = int n * 3 in
             othen (obind (loadArg px a) (\<lambda>p. LPD8806_store (i + LPD8806.r s) (0x80 OR RGB.R p)))
            (othen (obind (loadArg px a) (\<lambda>p. LPD8806_store (i + LPD8806.g s) (0x80 OR RGB.G p)))
                   (obind (loadArg px a) (\<lambda>p. LPD8806_store (i + LPD8806.b s) (0x80 OR RGB.B p)))) s))
          la)"

subsection \<open>The WS281x driver\<close>

text \<open>
  The struct \<open>WS281x\<close>. \<open>pixDMA\<close> is the handle of the DMA buffer (\<open>None\<close> for the nil
  pointer) and \<open>pixDMAUint\<close> the \<open>uint32\<close> view of its memory.
\<close>

record WS281x =
  pixDMAUint :: "u32 list"
  pixDMA :: "nat option"
  rp :: RPi
  pixels :: "u8 list"
  numPixels :: int
  numColors :: int
  g :: int
  r :: int
  b :: int
  w :: int

definition ledReset_us :: nat where
  "ledReset_us = 55"

text \<open>
  The struct \<open>WS281xConfig\<close>; the type parameter is the type of \<open>uint\<close>, a word of 32 or
  64 bits.
\<close>

record 'u WS281xConfig =
  NumPixels :: int
  ColorOrder :: ColorOrder
  ColorModel :: ColorModel
  PWMFrequency :: 'u
  DMAChannel :: int
  GPIOPins :: "int list"

text \<open>
  \<open>pwmByteCount\<close>, in \<open>uint\<close> arithmetic of \<open>LENGTH('a)\<close> bits. The product
  \<open>3 * numColors * numPixels * 8\<close> is computed on \<open>int\<close> and converted to \<open>uint\<close>, which
  keeps its value modulo \<open>2 ^ LENGTH('a)\<close>; division on words is the unsigned
  truncating division of Go.
\<close>

definition pwmByteCount :: "WS281x \<Rightarrow> 'a::len word \<Rightarrow> 'a word" where
  "pwmByteCount ws freq =
     (let bits = word_of_int (3 * numColors ws * numPixels ws * 8);
          bits = bits + (of_nat ledReset_us * (freq * 3)) div 1000000;
          bytes = bits div 8;
          bytes = bytes - bytes mod 4;
          bytes = bytes + 4;
          bytes = bytes * of_nat RPI_PWM_CHANNELS
      in bytes)"

text \<open>
  \<open>NewWS281x\<close>. The result is what the constructor returns (or its panic) and the log
  of the calls it has made on the hardware.
\<close>

definition NewWS281x ::
  "hw list \<Rightarrow> hwenv \<Rightarrow> ('a::len word) WS281xConfig \<Rightarrow> (error + WS281x) outcome \<times> hwcall list" where
  "NewWS281x variants e config =
     (case NewRPi variants e of
        (Inl err, log) \<Rightarrow> (Returned (Inl (''couldn't init RPi: '' @ err)), log)
      | (Inr rp0, _) \<Rightarrow>
          (let offs = offsets (ColorOrder config);
               nc = NumColors (ColorModel config)
           in if NumPixels config * nc < 0 then (Panicked MakeSliceLenOutOfRange, calls rp0)
              else
                (let wa = \<lparr>pixDMAUint = [], pixDMA = None, rp = rp0,
                           pixels = replicate (nat (NumPixels config * nc)) 0,
                           numPixels = NumPixels config, numColors = nc,
                           g = offs ! 0, r = offs ! 1, b = offs ! 2, w = offs ! 3\<rparr>;
                     bytes = pwmByteCount wa (PWMFrequency config)
                 in case GetDMABuf (unat bytes) rp0 of
                      (Inl err, rp1) \<Rightarrow>
                        (Returned (Inl (''couldn't get DMA buffer: '' @ err)), calls rp1)
                    | (Inr (h, mem), rp1) \<Rightarrow>
                        (let wa = wa\<lparr>pixDMA := Some h, pixDMAUint := mem\<rparr>
                         in case InitDMA (DMAChannel config) rp1 of
                              (Some err, rp2) \<Rightarrow>
                                (case FreeDMABuf (pixDMA wa) rp2 of
                                   (_, rp3) \<Rightarrow>
                                     (Returned (Inl (''couldn't init registers: '' @ err)), calls rp3))
                            | (None, rp2) \<Rightarrow>
                                (case InitGPIO rp2 of
                                   (Some err, rp3) \<Rightarrow>
                                     (case FreeDMABuf (pixDMA wa) rp3 of
                                        (_, rp4) \<Rightarrow>
                                          (Returned (Inl (''couldn't init GPIO: '' @ err)), calls rp4))
                                 | (None, rp3) \<Rightarrow>
                                     (case InitPWM (unat (PWMFrequency config)) (pixDMA wa) (unat bytes)
                                             (GPIOPins config) rp3 of
                                        (Some err, rp4) \<Rightarrow>
                                          (case FreeDMABuf (pixDMA wa) rp4 of
                                             (_, rp5) \<Rightarrow>
                                               (Returned (Inl (''couldn't init PWM: '' @ err)),
                                                calls rp5))
                                      | (None, rp4) \<Rightarrow>
                                          (Returned (Inr (wa\<lparr>rp := rp4\<rparr>)), calls rp4)))))))"

text \<open>The pixel accessors.\<close>

definition store :: "int \<Rightarrow> u8 \<Rightarrow> (unit, WS281x) op" where
  "store i v ws = (case sliceSet i v (pixels ws) of (res, px) \<Rightarrow> (res, ws\<lparr>pixels := px\<rparr>))"

definition load :: "int \<Rightarrow> (u8, WS281x) op" where
  "load i ws = (sliceGet (pixels ws) i, ws)"

definition RGBWAt :: "int \<Rightarrow> (RGBW, WS281x) op" where
  "RGBWAt i ws =
     (let ofs = i * numColors ws in
        obind (load (ofs + r ws)) (\<lambda>vr.
        obind (load (ofs + g ws)) (\<lambda>vg.
        obind (load (ofs + b ws)) (\<lambda>vb.
        obind (load (ofs + w ws)) (\<lambda>vw.
          Pair (Returned \<lparr>RGBW.R = vr, RGBW.G = vg, RGBW.B = vb, RGBW.W = vw\<rparr>))))) ws)"

definition SetRGBWAt :: "int \<Rightarrow> RGBW \<Rightarrow> (unit, WS281x) op" where
  "SetRGBWAt i rgbw ws =
     (let ofs = i * numColors ws in
        othen (store (ofs + r ws) (RGBW.R rgbw))
       (othen (store (ofs + g ws) (RGBW.G rgbw))
       (othen (store (ofs + b ws) (RGBW.B rgbw))
              (store (ofs + w ws) (RGBW.W rgbw)))) ws)"

definition SetRGBWs :: "RGBW list \<Rightarrow> (unit, WS281x) op" where
  "SetRGBWs px ws =
     (if numColors ws \<noteq> 4 then
        (Panicked (ContractViolation ''SetRGBWs called on WS281x with numColors != 4''), ws)
      else if int (length px) \<noteq> numPixels ws then
        (Panicked (ContractViolation ''SetRGBWs called with wrong number of pixels''), ws)
      else
        forEach (loopRounds 4 (length (pixels ws))) (\<lambda>n s.
          (let a = int n; i = int n * 4 in
             othen (obind (loadArg px i) (\<lambda>p. store (a + r s) (RGBW.R p)))
            (othen (obind (loadArg px i) (\<lambda>p. store (a + g s) (RGBW.G p)))
            (othen (obind (loadArg px i) (\<lambda>p. store (a + b s) (RGBW.B p)))
                   (obind (loadArg px i) (\<lambda>p. store (a + w s) (RGBW.W p))))) s))
          ws)"

definition RGBAt :: "int \<Rightarrow> (RGB, WS281x) op" where
  "RGBAt i ws =
     (let ofs = i * numColors ws in
        obind (load (ofs + r ws)) (\<lambda>vr.
        obind (load (ofs + g ws)) (\<lambda>vg.
        obind (load (ofs + b ws)) (\<lambda>vb.
          Pair (Returned \<lparr>RGB.R = vr, RGB.G = vg, RGB.B = vb\<rparr>)))) ws)"

definition SetRGBAt :: "int \<Rightarrow> RGB \<Rightarrow> (unit, WS281x) op" where
  "SetRGBAt i rgb ws =
     (let ofs = i * numColors ws in
        othen (store (ofs + r ws) (RGB.R rgb))
       (othen (store (ofs + g ws) (RGB.G rgb))
              (store (ofs + b ws) (RGB.B rgb))) ws)"

definition SetRGBs :: "RGB list \<Rightarrow> (unit, WS281x) op" where
  "SetRGBs px ws =
     (if numColors ws \<noteq> 3 then
        (Panicked (ContractViolation ''SetRGBs called on RGBW strip''), ws)
      else if int (length px) \<noteq> numPixels ws then
        (Panicked (ContractViolation ''SetRGBs called with wrong number of pixels''), ws)
      else
        forEach (loopRounds 3 (length (pixels ws))) (\<lambda>n s.
          (let a = int n; i = int n * 3 in
             othen (obind (loadArg px a) (\<lambda>p. store (i + r s) (RGB.R p)))
            (othen (obind (loadArg px a) (\<lambda>p. store (i + g s) (RGB.G p)))
                   (obind (loadArg px a) (\<lambda>p. store (i + b s) (RGB.B p)))) s))
          ws)"

text \<open>\<open>Flush\<close>: the encoder of the symbol buffer.\<close>

definition symbolHigh :: int where "symbolHigh = 0x6"
definition symbolLow :: int where "symbolLow = 0x4"

text \<open>
  The body of the innermost loop, on the symbol buffer and the two cursors \<open>rpPos\<close> and
  \<open>bitPos\<close>: clear the bit at the cursor, set it if bit \<open>l\<close> of the symbol is set, and
  move the cursor.
\<close>

definition putSymbolBit :: "int \<Rightarrow> nat \<Rightarrow> (unit, u32 list \<times> int \<times> int) op" where
  "putSymbolBit symbol l = (\<lambda>(buf, rpPos, bitPos).
     if 0 \<le> rpPos \<and> rpPos < int (length buf) then
       (let wd = (buf ! nat rpPos) AND NOT (push_bit (nat bitPos) 1);
            wd = (if symbol AND push_bit l 1 \<noteq> 0 then wd OR push_bit (nat bitPos) 1 else wd);
            buf = buf[nat rpPos := wd];
            bitPos = bitPos - 1
        in (Returned (), if bitPos < 0 then (buf, rpPos + 2, 31) else (buf, rpPos, bitPos)))
     else (Panicked (IndexOutOfRange rpPos (length buf)), (buf, rpPos, bitPos)))"

text \<open>The loops over \<open>k\<close> and \<open>l\<close> for the colour byte at index \<open>idx\<close> of the pixel buffer.\<close>

definition encodeByte :: "u8 list \<Rightarrow> int \<Rightarrow> (unit, u32 list \<times> int \<times> int) op" where
  "encodeByte px idx =
     forEach [7, 6, 5, 4, 3, 2, 1, 0] (\<lambda>k st.
       case sliceGet px idx of
         Panicked p \<Rightarrow> (Panicked p, st)
       | Returned v \<Rightarrow>
           (let symbol = (if v AND push_bit k 1 \<noteq> 0 then symbolHigh else symbolLow)
            in forEach [2, 1, 0] (putSymbolBit symbol) st))"

text \<open>The body of the loop over the channel \<open>c\<close>.\<close>

definition encodeChannel :: "WS281x \<Rightarrow> nat \<Rightarrow> (unit, u32 list) op" where
  "encodeChannel ws c buf =
     (case forEach [0..<nat (numPixels ws)] (\<lambda>i.
             forEach [0..<nat (numColors ws)] (\<lambda>j.
               encodeByte (pixels ws) (int i * numColors ws + int j)))
           (buf, int c, 31)
      of (res, (buf', _, _)) \<Rightarrow> (res, buf'))"

definition Flush :: "(error option, WS281x) op" where
  "Flush ws =
     (case WaitForDMAEnd (rp ws) of
        (Some err, rp1) \<Rightarrow> (Returned (Some (''pre-DMA wait failed: '' @ err)), ws\<lparr>rp := rp1\<rparr>)
      | (None, rp1) \<Rightarrow>
          (case forEach [0, 1] (encodeChannel ws) (pixDMAUint ws) of
             (Panicked p, buf) \<Rightarrow> (Panicked p, ws\<lparr>rp := rp1, pixDMAUint := buf\<rparr>)
           | (Returned _, buf) \<Rightarrow>
               (Returned None,
                ws\<lparr>rp := StartDMA (pixDMA ws) buf rp1,
                   pixDMAUint := buf\<rparr>)))"

section \<open>Statements of the specification and examples\<close>

subsection \<open>Symbol-buffer sizing\<close>

text \<open>
  The size of the symbol buffer in the specification's words, on natural numbers: the
  data bits, plus a reset gap of \<open>ceil(55 * frequency * 3 / 1000000)\<close> bits, converted to
  bytes, brought to the next multiple of 4 with one word of margin (for a byte count
  \<open>n\<close> the multiple of 4 above \<open>n\<close>, as the code's "round up to next uint32" does), times
  the number of PWM channels.
\<close>

definition spec_resetBits :: "nat \<Rightarrow> nat" where
  "spec_resetBits freq = (ledReset_us * freq * 3 + 999999) div 1000000"

definition spec_pwmByteCount :: "nat \<Rightarrow> nat \<Rightarrow> nat \<Rightarrow> nat" where
  "spec_pwmByteCount np nc freq =
     (let bits = 3 * nc * np * 8 + spec_resetBits freq;
          bytes = bits div 8;
          bytes = bytes - bytes mod 4 + 4
      in bytes * RPI_PWM_CHANNELS)"

text \<open>The same with the reset gap rounded down, \<open>floor(55 * frequency * 3 / 1000000)\<close>.\<close>

definition exact_pwmByteCount :: "nat \<Rightarrow> nat \<Rightarrow> nat \<Rightarrow> nat" where
  "exact_pwmByteCount np nc freq =
     (let bits = 3 * nc * np * 8 + (ledReset_us * freq * 3) div 1000000;
          bytes = bits div 8;
          bytes = bytes - bytes mod 4 + 4
      in bytes * RPI_PWM_CHANNELS)"

text \<open>
  No intermediate value of \<open>pwmByteCount\<close> exceeds the range of a \<open>uint\<close> of
  \<open>LENGTH('a)\<close> bits.
\<close>

definition noOverflow :: "'a::len itself \<Rightarrow> nat \<Rightarrow> nat \<Rightarrow> nat \<Rightarrow> bool" where
  "noOverflow T np nc freq \<longleftrightarrow>
     ledReset_us * freq * 3 < 2 ^ LENGTH('a) \<and>
     3 * nc * np * 8 + (ledReset_us * freq * 3) div 1000000 < 2 ^ LENGTH('a)"

subsection \<open>Example drivers\<close>

definition exampleEnv :: hwenv where
  "exampleEnv = \<lparr>modelFile = Inr ''Raspberry Pi 3 Model B Plus Rev 1.3'', mboxOpenErr = None,
     getDMABufErr = None, dmaHandle = 1, dmaMemory = (\<lambda>_. 0), initDMAErr = None,
     initGPIOErr = None, initPWMErr = None, freeDMABufErr = None, waitForDMAEndErr = None\<rparr>"

text \<open>A strip as the struct literal of \<open>NewWS281x\<close> builds it, before a DMA buffer is attached.\<close>

definition exampleStrip :: "int \<Rightarrow> ColorModel \<Rightarrow> ColorOrder \<Rightarrow> WS281x" where
  "exampleStrip np m ord =
     \<lparr>pixDMAUint = [], pixDMA = None,
      rp = \<lparr>hw = hd rasPiVariants, env = exampleEnv, calls = []\<rparr>,
      pixels = replicate (nat (np * NumColors m)) 0,
      numPixels = np, numColors = NumColors m,
      g = offsets ord ! 0, r = offsets ord ! 1, b = offsets ord ! 2, w = offsets ord ! 3\<rparr>"

subsection \<open>Configured drivers\<close>

text \<open>
  The state of a driver that the constructor has configured with the colour order
  \<open>ord\<close>: the channel offsets are those of the order, the colour model has 3 or 4
  channels, and the pixel buffer holds \<open>numPixels * numColors\<close> bytes.
\<close>

definition configured :: "ColorOrder \<Rightarrow> WS281x \<Rightarrow> bool" where
  "configured ord ws \<longleftrightarrow>
     (numColors ws = 3 \<or> numColors ws = 4) \<and> 0 \<le> numPixels ws \<and>
     int (length (pixels ws)) = numPixels ws * numColors ws \<and>
     g ws = offsets ord ! 0 \<and> r ws = offsets ord ! 1 \<and>
     b ws = offsets ord ! 2 \<and> w ws = offsets ord ! 3"

definition LPD8806_configured :: "ColorOrder \<Rightarrow> LPD8806 \<Rightarrow> bool" where
  "LPD8806_configured ord la \<longleftrightarrow>
     (LPD8806.numColors la = 3 \<or> LPD8806.numColors la = 4) \<and> 0 \<le> LPD8806.numPixels la \<and>
     int (length (LPD8806.pixels la)) = LPD8806.numPixels la * LPD8806.numColors la \<and>
     LPD8806.g la = offsets ord ! 0 \<and> LPD8806.r la = offsets ord ! 1 \<and>
     LPD8806.b la = offsets ord ! 2 \<and> LPD8806.w la = offsets ord ! 3"

text \<open>An LPD8806 strip as the struct literal of \<open>NewLPD8806\<close> builds it.\<close>

definition exampleLPD8806 :: "int \<Rightarrow> ColorModel \<Rightarrow> ColorOrder \<Rightarrow> LPD8806" where
  "exampleLPD8806 np m ord =
     \<lparr>LPD8806.pixels = replicate (nat (np * NumColors m)) 0,
      resetBytes = replicate (nat ((np + 31) div 32)) 0,
      LPD8806.numColors = NumColors m, LPD8806.numPixels = np,
      LPD8806.g = offsets ord ! 0, LPD8806.r = offsets ord ! 1,
      LPD8806.b = offsets ord ! 2, LPD8806.w = offsets ord ! 3\<rparr>"

section \<open>Properties\<close>

subsection \<open>Symbol-buffer sizing (claims C3 and C10)\<close>

lemma uint_bound:
  assumes "32 \<le> LENGTH('a::len)"
  shows "(4294967296::nat) \<le> 2 ^ LENGTH('a)"
proof -
  have "(2::nat) ^ 32 \<le> 2 ^ LENGTH('a)"
    using assms by (intro power_increasing) simp_all
  then show ?thesis by simp
qed

lemma unat_small:
  fixes k :: nat
  assumes "32 \<le> LENGTH('a::len)" and "k < 4294967296"
  shows "unat (of_nat k :: 'a word) = k"
proof -
  have "k < 2 ^ LENGTH('a)" using uint_bound [OF assms(1)] assms(2) by linarith
  then show ?thesis by (simp add: unat_of_nat)
qed

lemma round_word: "((x::nat) div 8 - x div 8 mod 4 + 4) * 2 = 8 * (x div 32 + 1)"
proof -
  have "x div 8 - x div 8 mod 4 = 4 * (x div 8 div 4)"
    by (simp add: minus_mod_eq_mult_div)
  also have "x div 8 div 4 = x div 32"
    by (simp add: div_mult2_eq [symmetric])
  finally show ?thesis by simp
qed

lemma round_word_bound:
  assumes "(x::nat) < p" and "16 \<le> p"
  shows "8 * (x div 32 + 1) < p"
proof (cases "x < 16")
  case True
  then have "x div 32 = 0" by simp
  then show ?thesis using assms(2) by simp
next
  case False
  define q where "q = x div 32"
  have "32 * q \<le> x" by (simp add: q_def)
  moreover have "16 \<le> x" using False by simp
  ultimately have "8 * q + 8 \<le> x" by linarith
  then have "8 * (q + 1) \<le> x" by simp
  then show ?thesis using assms(1) by (simp add: q_def)
qed


lemma pbc_unat:
  fixes freq :: "'a::len word"
  assumes len: "32 \<le> LENGTH('a)"
    and np: "0 \<le> numPixels ws" and nc: "0 \<le> numColors ws"
    and f: "165 * unat freq < 2 ^ LENGTH('a)"
    and t: "24 * nat (numColors ws) * nat (numPixels ws) + 165 * unat freq div 1000000 < 2 ^ LENGTH('a)"
  shows "unat (pwmByteCount ws freq) = 8 * ((24 * nat (numColors ws) * nat (numPixels ws) + 165 * unat freq div 1000000) div 32 + 1)"
proof -
  define n where "n = 24 * nat (numColors ws) * nat (numPixels ws)"
  define rs where "rs = 165 * unat freq div 1000000"
  note B = uint_bound [OF len]
  have c3: "unat (3 :: 'a word) = 3" using unat_small [OF len, of 3] by simp
  have c4: "unat (4 :: 'a word) = 4" using unat_small [OF len, of 4] by simp
  have c8: "unat (8 :: 'a word) = 8" using unat_small [OF len, of 8] by simp
  have c2: "unat (2 :: 'a word) = 2" using unat_small [OF len, of 2] by simp
  have c55: "unat (55 :: 'a word) = 55" using unat_small [OF len, of 55] by simp
  have cM: "unat (1000000 :: 'a word) = 1000000" using unat_small [OF len, of 1000000] by simp
  have "3 * numColors ws * numPixels ws * 8 = int n"
    using np nc by (simp add: n_def)
  then have w0: "(word_of_int (3 * numColors ws * numPixels ws * 8) :: 'a word) = of_nat n"
    by simp
  have nlt: "n < 2 ^ LENGTH('a)" using t by (simp add: n_def)
  have u0: "unat (of_nat n :: 'a word) = n" using nlt by (simp add: unat_of_nat)
  have u1: "unat (freq * 3) = unat freq * 3"
    using f c3 by (simp add: unat_mult_lem [THEN iffD1])
  have "unat (55 :: 'a word) * unat (freq * 3) < 2 ^ LENGTH('a)"
    using f by (simp only: c55 u1)
  then have "unat (55 * (freq * 3)) = unat (55 :: 'a word) * unat (freq * 3)"
    by (rule unat_mult_lem [THEN iffD1])
  then have u2: "unat (55 * (freq * 3)) = 165 * unat freq"
    by (simp only: c55 u1)
  define prod :: "'a word" where "prod = 55 * (freq * 3)"
  have up: "unat prod = 165 * unat freq" using u2 by (simp only: prod_def)
  have "unat (prod div 1000000) = unat prod div unat (1000000 :: 'a word)"
    by (rule unat_div)
  then have u3: "unat (prod div 1000000) = rs"
    by (simp only: up cM rs_def)
  define rw :: "'a word" where "rw = prod div 1000000"
  have urw: "unat rw = rs" using u3 by (simp only: rw_def)
  have t': "n + rs < 2 ^ LENGTH('a)" using t by (simp only: n_def rs_def)
  have "unat (of_nat n :: 'a word) + unat rw < 2 ^ LENGTH('a)"
    using t' by (simp only: u0 urw)
  then have "unat (of_nat n + rw) = unat (of_nat n :: 'a word) + unat rw"
    by (rule unat_add_lem [THEN iffD1])
  then have u4: "unat (of_nat n + rw) = n + rs"
    by (simp only: u0 urw)
  define bits :: "'a word" where "bits = of_nat n + rw"
  have ub: "unat bits = n + rs" using u4 by (simp add: bits_def)
  have u5: "unat (bits div 8) = (n + rs) div 8" by (simp only: unat_div ub c8)
  define bytes :: "'a word" where "bytes = bits div 8"
  have uby: "unat bytes = (n + rs) div 8" using u5 by (simp add: bytes_def)
  have u6: "unat (bytes mod 4) = unat bytes mod 4" by (simp only: unat_mod c4)
  have le: "bytes mod 4 \<le> bytes" unfolding word_le_nat_alt u6 by simp
  have u7: "unat (bytes - bytes mod 4) = unat bytes - unat bytes mod 4"
    using le by (simp only: unat_sub u6)
  have "16 \<le> (2::nat) ^ LENGTH('a)" using B by linarith
  from round_word_bound [OF t' this]
  have small: "(unat bytes - unat bytes mod 4 + 4) * 2 < 2 ^ LENGTH('a)"
    by (simp only: uby round_word)
  define y where "y = unat bytes - unat bytes mod 4 + 4"
  have y2: "y * 2 < 2 ^ LENGTH('a)" using small by (simp only: y_def)
  then have y1: "y < 2 ^ LENGTH('a)" by linarith
  have "unat (bytes - bytes mod 4) + unat (4 :: 'a word) < 2 ^ LENGTH('a)"
    using y1 by (simp only: u7 c4 y_def)
  then have "unat (bytes - bytes mod 4 + 4) = unat (bytes - bytes mod 4) + unat (4 :: 'a word)"
    by (rule unat_add_lem [THEN iffD1])
  then have u8: "unat (bytes - bytes mod 4 + 4) = unat bytes - unat bytes mod 4 + 4"
    by (simp only: u7 c4)
  have "unat (bytes - bytes mod 4 + 4) * unat (2 :: 'a word) < 2 ^ LENGTH('a)"
    using y2 by (simp only: u8 c2 y_def)
  then have "unat ((bytes - bytes mod 4 + 4) * 2) = unat (bytes - bytes mod 4 + 4) * unat (2 :: 'a word)"
    by (rule unat_mult_lem [THEN iffD1])
  then have u9: "unat ((bytes - bytes mod 4 + 4) * 2) = (unat bytes - unat bytes mod 4 + 4) * 2"
    by (simp only: u8 c2)
  have "pwmByteCount ws freq = (bytes - bytes mod 4 + 4) * 2"
    unfolding pwmByteCount_def Let_def w0 bytes_def bits_def rw_def prod_def
      ledReset_us_def RPI_PWM_CHANNELS_def
    by simp
  then have "unat (pwmByteCount ws freq) = ((n + rs) div 8 - (n + rs) div 8 mod 4 + 4) * 2"
    using u9 uby by simp
  also have "\<dots> = 8 * ((n + rs) div 32 + 1)"
    by (rule round_word)
  finally show ?thesis by (simp add: n_def rs_def)
qed


lemma exact_eq: "exact_pwmByteCount np nc freq = 8 * ((24 * nc * np + 165 * freq div 1000000) div 32 + 1)"
proof -
  have "exact_pwmByteCount np nc freq =
      ((24 * nc * np + 165 * freq div 1000000) div 8 - (24 * nc * np + 165 * freq div 1000000) div 8 mod 4 + 4) * 2"
    by (simp add: exact_pwmByteCount_def Let_def ledReset_us_def RPI_PWM_CHANNELS_def mult.assoc)
  then show ?thesis by (simp only: round_word)
qed

lemma pwmByteCount_unat:
  fixes freq :: "'a::len word"
  assumes "32 \<le> LENGTH('a)" and "0 \<le> numPixels ws" and "0 \<le> numColors ws"
    and "noOverflow TYPE('a) (nat (numPixels ws)) (nat (numColors ws)) (unat freq)"
  shows "unat (pwmByteCount ws freq) = exact_pwmByteCount (nat (numPixels ws)) (nat (numColors ws)) (unat freq)"
proof -
  have f: "165 * unat freq < 2 ^ LENGTH('a)"
    using assms(4) by (simp add: noOverflow_def ledReset_us_def)
  have t: "24 * nat (numColors ws) * nat (numPixels ws) + 165 * unat freq div 1000000 < 2 ^ LENGTH('a)"
    using assms(4) by (simp add: noOverflow_def ledReset_us_def)
  show ?thesis
    using pbc_unat [OF assms(1-3) f t] by (simp only: exact_eq)
qed

lemma exact_mono:
  assumes "np1 \<le> np2" and "nc1 \<le> nc2" and "f1 \<le> f2"
  shows "exact_pwmByteCount np1 nc1 f1 \<le> exact_pwmByteCount np2 nc2 (f2::nat)"
proof -
  have "nc1 * np1 \<le> nc2 * np2" using assms(1,2) by (rule mult_le_mono [rotated])
  moreover have "165 * f1 div 1000000 \<le> 165 * f2 div 1000000"
    using assms(3) by (intro div_le_mono) simp
  ultimately have "24 * nc1 * np1 + 165 * f1 div 1000000 \<le> 24 * nc2 * np2 + 165 * f2 div 1000000"
    by (simp add: add_mono mult.assoc)
  then have "(24 * nc1 * np1 + 165 * f1 div 1000000) div 32 \<le> (24 * nc2 * np2 + 165 * f2 div 1000000) div 32"
    by (rule div_le_mono)
  then show ?thesis by (simp only: exact_eq) simp
qed

lemma noOverflow_mono:
  assumes "noOverflow TYPE('a::len) np2 nc2 f2" and "np1 \<le> np2" and "nc1 \<le> nc2" and "f1 \<le> f2"
  shows "noOverflow TYPE('a) np1 nc1 f1"
proof -
  have a: "165 * f1 \<le> 165 * f2" using assms(4) by simp
  have "nc1 * np1 \<le> nc2 * np2" using assms(2,3) by (rule mult_le_mono [rotated])
  moreover have "165 * f1 div 1000000 \<le> 165 * f2 div 1000000"
    using a by (rule div_le_mono)
  ultimately have b: "24 * (nc1 * np1) + 165 * f1 div 1000000 \<le> 24 * (nc2 * np2) + 165 * f2 div 1000000"
    by (simp add: add_mono)
  have c: "165 * f2 < 2 ^ LENGTH('a)"
    and d: "24 * (nc2 * np2) + 165 * f2 div 1000000 < 2 ^ LENGTH('a)"
    using assms(1) by (simp_all add: noOverflow_def ledReset_us_def mult.assoc)
  have "165 * f1 < 2 ^ LENGTH('a)" using a c by (rule le_less_trans)
  moreover have "24 * (nc1 * np1) + 165 * f1 div 1000000 < 2 ^ LENGTH('a)"
    using b d by (rule le_less_trans)
  ultimately show ?thesis by (simp add: noOverflow_def ledReset_us_def mult.assoc)
qed


text \<open>
  Claim C3, as amended: whenever no intermediate value overflows the \<open>uint\<close> range,
  \<open>pwmByteCount\<close> is the byte count obtained from \<open>3 * numColors * numPixels * 8\<close> data
  bits plus a reset gap of \<open>floor(55 * frequency * 3 / 1000000)\<close> bits, converted to
  bytes, brought to the next multiple of 4 with a word of margin, times the number of
  PWM channels.
\<close>

theorem pwmByteCount_exact:
  fixes freq :: "'a::len word"
  assumes "32 \<le> LENGTH('a)" and "0 \<le> numPixels ws" and "0 \<le> numColors ws"
    and "noOverflow TYPE('a) (nat (numPixels ws)) (nat (numColors ws)) (unat freq)"
  shows "unat (pwmByteCount ws freq) =
           exact_pwmByteCount (nat (numPixels ws)) (nat (numColors ws)) (unat freq)"
  using assms by (rule pwmByteCount_unat)

theorem pwmByteCount_exact_witness:
  "unat (pwmByteCount (exampleStrip 1 RGBModel GRBOrder) (800000 :: 32 word)) = 56"
proof -
  have "noOverflow TYPE(32) (nat (numPixels (exampleStrip 1 RGBModel GRBOrder)))
          (nat (numColors (exampleStrip 1 RGBModel GRBOrder))) (unat (800000 :: 32 word))"
    by (simp add: noOverflow_def exampleStrip_def NumColors_def ledReset_us_def)
  from pwmByteCount_exact [OF _ _ _ this]
  show ?thesis
    by (simp add: exampleStrip_def NumColors_def exact_pwmByteCount_def ledReset_us_def RPI_PWM_CHANNELS_def)
qed


text \<open>
  Claim C3 as stated fails: at one RGB pixel and 140000 Hz the code's reset gap is 23
  bits where the ceiling is 24, and the byte counts differ (24 against 32), on 32-bit
  and on 64-bit \<open>uint\<close>; and at 26100000 Hz the product \<open>55 * frequency * 3\<close> wraps around
  a 32-bit \<open>uint\<close>.
\<close>

theorem pwmByteCount_spec_counterexample:
  "unat (pwmByteCount (exampleStrip 1 RGBModel GRBOrder) (140000 :: 32 word)) = 24
   \<and> unat (pwmByteCount (exampleStrip 1 RGBModel GRBOrder) (140000 :: 64 word)) = 24
   \<and> spec_pwmByteCount 1 3 140000 = 32
   \<and> unat (pwmByteCount (exampleStrip 1 RGBModel GRBOrder) (26100000 :: 32 word)) = 24
   \<and> spec_pwmByteCount 1 3 26100000 = 1096"
  by (simp add: pwmByteCount_def exampleStrip_def NumColors_def ledReset_us_def
      RPI_PWM_CHANNELS_def spec_pwmByteCount_def spec_resetBits_def)

text \<open>
  Claim C10, as amended: \<open>pwmByteCount\<close> is monotonically non-decreasing in \<open>numPixels\<close>,
  \<open>numColors\<close> and the frequency, as long as the computation for the larger
  configuration does not overflow the \<open>uint\<close> range.
\<close>

theorem pwmByteCount_mono:
  fixes freq1 freq2 :: "'a::len word"
  assumes "32 \<le> LENGTH('a)"
    and "0 \<le> numPixels ws1" and "numPixels ws1 \<le> numPixels ws2"
    and "0 \<le> numColors ws1" and "numColors ws1 \<le> numColors ws2"
    and "freq1 \<le> freq2"
    and "noOverflow TYPE('a) (nat (numPixels ws2)) (nat (numColors ws2)) (unat freq2)"
  shows "pwmByteCount ws1 freq1 \<le> pwmByteCount ws2 freq2"
proof -
  have np: "nat (numPixels ws1) \<le> nat (numPixels ws2)" using assms(3) by simp
  have nc: "nat (numColors ws1) \<le> nat (numColors ws2)" using assms(5) by simp
  have fr: "unat freq1 \<le> unat freq2" using assms(6) by (simp add: word_le_nat_alt)
  have no1: "noOverflow TYPE('a) (nat (numPixels ws1)) (nat (numColors ws1)) (unat freq1)"
    using assms(7) np nc fr by (rule noOverflow_mono)
  have p2: "0 \<le> numPixels ws2" using assms(2,3) by simp
  have c2: "0 \<le> numColors ws2" using assms(4,5) by simp
  have "unat (pwmByteCount ws1 freq1) \<le> unat (pwmByteCount ws2 freq2)"
    unfolding pwmByteCount_unat [OF assms(1) assms(2) assms(4) no1]
      pwmByteCount_unat [OF assms(1) p2 c2 assms(7)]
    using np nc fr by (rule exact_mono)
  then show ?thesis by (simp add: word_le_nat_alt)
qed

theorem pwmByteCount_mono_witness:
  "pwmByteCount (exampleStrip 1 RGBModel GRBOrder) (400000 :: 64 word)
     \<le> pwmByteCount (exampleStrip 10 RGBWModel GRBWOrder) (800000 :: 64 word)"
proof -
  have "noOverflow TYPE(64) (nat (numPixels (exampleStrip 10 RGBWModel GRBWOrder)))
          (nat (numColors (exampleStrip 10 RGBWModel GRBWOrder))) (unat (800000 :: 64 word))"
    by (simp add: noOverflow_def exampleStrip_def NumColors_def ledReset_us_def)
  then show ?thesis
    by (intro pwmByteCount_mono) (simp_all add: exampleStrip_def NumColors_def)
qed


text \<open>
  Claim C10 as stated fails where \<open>55 * frequency * 3\<close> wraps around: raising the
  frequency from 26000000 to 26100000 on a 32-bit \<open>uint\<close> (and from 111700000000000000
  to 111800000000000000 on a 64-bit one) lowers the byte count.
\<close>

theorem pwmByteCount_mono_counterexample:
  "(26000000 :: 32 word) \<le> 26100000
   \<and> \<not> pwmByteCount (exampleStrip 1 RGBModel GRBOrder) (26000000 :: 32 word)
        \<le> pwmByteCount (exampleStrip 1 RGBModel GRBOrder) (26100000 :: 32 word)
   \<and> (111700000000000000 :: 64 word) \<le> 111800000000000000
   \<and> \<not> pwmByteCount (exampleStrip 1 RGBModel GRBOrder) (111700000000000000 :: 64 word)
        \<le> pwmByteCount (exampleStrip 1 RGBModel GRBOrder) (111800000000000000 :: 64 word)"
  by (simp add: pwmByteCount_def exampleStrip_def NumColors_def ledReset_us_def RPI_PWM_CHANNELS_def)

subsection \<open>The bulk setters (claims C4 and C5)\<close>

lemma loopRounds_4_8: "loopRounds 4 8 = [0, 1]"
  by (simp add: loopRounds_def upt_rec)

text \<open>
  Claim C4 fails on the code: \<open>SetRGBWs\<close> indexes the argument slice with the byte
  position \<open>i\<close> and the pixel buffer with the round counter \<open>a\<close>, the reverse of what
  \<open>SetRGBs\<close> does. On a 4-channel strip of two pixels in GRBW order, with two pixels
  given, the first round stores the first pixel and the second round reads \<open>pixels[4]\<close>
  of a slice of length 2: the call panics with an index out of range and the second
  pixel is never stored. The LPD8806 driver does the same.
\<close>

theorem SetRGBWs_two_pixels:
  "SetRGBWs [\<lparr>RGBW.R = 1, RGBW.G = 2, RGBW.B = 3, RGBW.W = 4\<rparr>,
             \<lparr>RGBW.R = 5, RGBW.G = 6, RGBW.B = 7, RGBW.W = 8\<rparr>]
     (exampleStrip 2 RGBWModel GRBWOrder)
   = (Panicked (IndexOutOfRange 4 2),
      (exampleStrip 2 RGBWModel GRBWOrder)\<lparr>pixels := [2, 1, 3, 4, 0, 0, 0, 0]\<rparr>)
   \<and> LPD8806_SetRGBWs [\<lparr>RGBW.R = 1, RGBW.G = 2, RGBW.B = 3, RGBW.W = 4\<rparr>,
             \<lparr>RGBW.R = 5, RGBW.G = 6, RGBW.B = 7, RGBW.W = 8\<rparr>]
     (exampleLPD8806 2 RGBWModel GRBWOrder)
   = (Panicked (IndexOutOfRange 4 2),
      (exampleLPD8806 2 RGBWModel GRBWOrder)\<lparr>LPD8806.pixels := [130, 129, 131, 132, 0, 0, 0, 0]\<rparr>)"
  apply (simp add: SetRGBWs_def LPD8806_SetRGBWs_def exampleStrip_def exampleLPD8806_def
      NumColors_def offsets_def loopRounds_4_8 Let_def)
  apply (simp add: othen_def obind_def loadArg_def sliceGet_def store_def LPD8806_store_def
      sliceSet_def Let_def)
  apply (simp add: eval_nat_numeral)
  done

text \<open>On every 4-channel strip of two or more pixels \<open>SetRGBWs\<close> ends in a panic.\<close>

lemma forEach_panics:
  assumes "x \<in> set xs" and "\<And>s. \<exists>p s'. f x s = (Panicked p, s')"
  shows "\<exists>p s'. forEach xs f s = (Panicked p, s')"
  using assms(1)
proof (induction xs arbitrary: s)
  case Nil
  then show ?case by simp
next
  case (Cons y ys)
  show ?case
  proof (cases "f y s")
    case (Pair res s1)
    show ?thesis
    proof (cases res)
      case (Panicked p)
      with Pair show ?thesis by simp
    next
      case (Returned u)
      have "y \<noteq> x"
      proof
        assume "y = x"
        with assms(2) [of s] Pair Returned show False by simp
      qed
      with Cons.prems have "x \<in> set ys" by simp
      from Cons.IH [OF this, of s1] Pair Returned show ?thesis by simp
    qed
  qed
qed

lemma SetRGBWs_panics:
  assumes "numColors ws = 4" and "int (length px) = numPixels ws"
    and "length (pixels ws) = 4 * length px" and "2 \<le> length px"
  shows "\<exists>p s'. SetRGBWs px ws = (Panicked p, s')"
proof -
  have rounds: "loopRounds 4 (length (pixels ws)) = [0..<length px]"
    by (simp add: loopRounds_def assms(3))
  have mem: "length px - 1 \<in> set [0..<length px]" using assms(4) by simp
  have "\<exists>p s'. forEach [0..<length px] (\<lambda>n s.
          (let a = int n; i = int n * 4 in
             othen (obind (loadArg px i) (\<lambda>p. store (a + r s) (RGBW.R p)))
            (othen (obind (loadArg px i) (\<lambda>p. store (a + g s) (RGBW.G p)))
            (othen (obind (loadArg px i) (\<lambda>p. store (a + b s) (RGBW.B p)))
                   (obind (loadArg px i) (\<lambda>p. store (a + w s) (RGBW.W p))))) s)) ws
        = (Panicked p, s')"
  proof (rule forEach_panics [OF mem])
    fix s
    have "\<not> int (length px - 1) * 4 < int (length px)" using assms(4) by linarith
    then show "\<exists>p s'. (let a = int (length px - 1); i = int (length px - 1) * 4 in
             othen (obind (loadArg px i) (\<lambda>p. store (a + r s) (RGBW.R p)))
            (othen (obind (loadArg px i) (\<lambda>p. store (a + g s) (RGBW.G p)))
            (othen (obind (loadArg px i) (\<lambda>p. store (a + b s) (RGBW.B p)))
                   (obind (loadArg px i) (\<lambda>p. store (a + w s) (RGBW.W p))))) s) = (Panicked p, s')"
      by (simp add: Let_def othen_def obind_def loadArg_def sliceGet_def)
  qed
  then show ?thesis using assms(1,2) by (simp add: SetRGBWs_def rounds)
qed

text \<open>
  Claim C5: a bulk setter called with a slice whose length differs from \<open>numPixels\<close>, or
  on a driver whose channel count does not match the setter, panics with a contract
  violation and leaves the driver, and with it every byte of the pixel buffer, as it
  was. This holds for both drivers.
\<close>

theorem bulk_setter_contract:
  "(numColors ws \<noteq> 3 \<or> int (length px) \<noteq> numPixels ws \<longrightarrow>
      (\<exists>msg. SetRGBs px ws = (Panicked (ContractViolation msg), ws)))
   \<and> (numColors ws \<noteq> 4 \<or> int (length pxw) \<noteq> numPixels ws \<longrightarrow>
      (\<exists>msg. SetRGBWs pxw ws = (Panicked (ContractViolation msg), ws)))
   \<and> (LPD8806.numColors la \<noteq> 3 \<or> int (length px) \<noteq> LPD8806.numPixels la \<longrightarrow>
      (\<exists>msg. LPD8806_SetRGBs px la = (Panicked (ContractViolation msg), la)))
   \<and> (LPD8806.numColors la \<noteq> 4 \<or> int (length pxw) \<noteq> LPD8806.numPixels la \<longrightarrow>
      (\<exists>msg. LPD8806_SetRGBWs pxw la = (Panicked (ContractViolation msg), la)))"
  by (simp add: SetRGBs_def SetRGBWs_def LPD8806_SetRGBs_def LPD8806_SetRGBWs_def)

theorem bulk_setter_contract_witness:
  "(\<exists>msg. SetRGBs [\<lparr>RGB.R = 1, RGB.G = 2, RGB.B = 3\<rparr>] (exampleStrip 2 RGBModel GRBOrder)
        = (Panicked (ContractViolation msg), exampleStrip 2 RGBModel GRBOrder))
   \<and> (\<exists>msg. SetRGBWs [] (exampleStrip 2 RGBModel GRBOrder)
        = (Panicked (ContractViolation msg), exampleStrip 2 RGBModel GRBOrder))
   \<and> (\<exists>msg. LPD8806_SetRGBs [\<lparr>RGB.R = 1, RGB.G = 2, RGB.B = 3\<rparr>] (exampleLPD8806 2 RGBModel GRBOrder)
        = (Panicked (ContractViolation msg), exampleLPD8806 2 RGBModel GRBOrder))
   \<and> (\<exists>msg. LPD8806_SetRGBWs [] (exampleLPD8806 2 RGBModel GRBOrder)
        = (Panicked (ContractViolation msg), exampleLPD8806 2 RGBModel GRBOrder))"
proof -
  have a: "int (length [\<lparr>RGB.R = 1, RGB.G = 2, RGB.B = 3\<rparr>]) \<noteq> numPixels (exampleStrip 2 RGBModel GRBOrder)"
    by (simp add: exampleStrip_def)
  have b: "numColors (exampleStrip 2 RGBModel GRBOrder) \<noteq> 4"
    by (simp add: exampleStrip_def NumColors_def)
  have c: "int (length [\<lparr>RGB.R = 1, RGB.G = 2, RGB.B = 3\<rparr>]) \<noteq> LPD8806.numPixels (exampleLPD8806 2 RGBModel GRBOrder)"
    by (simp add: exampleLPD8806_def)
  have d: "LPD8806.numColors (exampleLPD8806 2 RGBModel GRBOrder) \<noteq> 4"
    by (simp add: exampleLPD8806_def NumColors_def)
  show ?thesis
    using bulk_setter_contract [of "exampleStrip 2 RGBModel GRBOrder"
        "[\<lparr>RGB.R = 1, RGB.G = 2, RGB.B = 3\<rparr>]" "[]" "exampleLPD8806 2 RGBModel GRBOrder"] a b c d
    by blast
qed

end
